theory Spec2Isabelle
  imports Main "HOL-Library.Word"
begin

section \<open>Values, errors and the process state\<close>

text \<open>
  The script \<^verbatim>\<open>scripts/check-local-status.py\<close> works on whatever \<^verbatim>\<open>json.loads\<close>
  returns. A decoded value is one of Python's \<^verbatim>\<open>None\<close>, \<^verbatim>\<open>bool\<close>, \<^verbatim>\<open>int\<close>,
  \<^verbatim>\<open>float\<close> (the 64 bits of the double), \<^verbatim>\<open>str\<close>, \<^verbatim>\<open>list\<close> and \<^verbatim>\<open>dict\<close>.
  A dict is an association list in insertion order, read with \<open>map_of\<close>.
\<close>

datatype pyval =
    PNone
  | PBool bool
  | PInt int
  | PFloat "64 word"
  | PStr string
  | PList "pyval list"
  | PDict "(string \<times> pyval) list"

text \<open>
  The exceptions the script can end with. \<open>FetchError\<close> stands for everything that
  \<^verbatim>\<open>urlopen\<close>, \<^verbatim>\<open>read\<close>, \<^verbatim>\<open>decode\<close> and \<^verbatim>\<open>json.loads\<close> may raise.
\<close>

datatype error =
    KeyError string
  | AttributeError
  | TypeError
  | FetchError string

record request =
  url :: string
  headers :: "(string \<times> string) list"

text \<open>
  What the process has done so far: the requests it has sent and the lines it has
  printed on each stream, one list element for each call of \<^verbatim>\<open>print\<close>.
\<close>

record proc =
  requests :: "request list"
  stdout :: "string list"
  stderr :: "string list"

definition proc0 :: proc where
  "proc0 = \<lparr>requests = [], stdout = [], stderr = []\<rparr>"

definition print_stdout :: "string \<Rightarrow> proc \<Rightarrow> proc" where
  "print_stdout s \<sigma> = \<sigma>\<lparr>stdout := stdout \<sigma> @ [s]\<rparr>"

definition print_stderr :: "string \<Rightarrow> proc \<Rightarrow> proc" where
  "print_stderr s \<sigma> = \<sigma>\<lparr>stderr := stderr \<sigma> @ [s]\<rparr>"

section \<open>The Python operations the script uses\<close>

text \<open>\<^verbatim>\<open>os.environ[k]\<close>: a missing variable raises \<^verbatim>\<open>KeyError\<close>.\<close>

definition environ_get :: "(string \<rightharpoonup> string) \<Rightarrow> string \<Rightarrow> error + string" where
  "environ_get environ k = (case environ k of None \<Rightarrow> Inl (KeyError k) | Some v \<Rightarrow> Inr v)"

text \<open>\<^verbatim>\<open>x.get(k, d)\<close>: only a dict has the method.\<close>

fun py_get :: "pyval \<Rightarrow> string \<Rightarrow> pyval \<Rightarrow> error + pyval" where
  "py_get (PDict kvs) k d = Inr (case map_of kvs k of None \<Rightarrow> d | Some v \<Rightarrow> v)"
| "py_get _ k d = Inl AttributeError"

text \<open>
  \<^verbatim>\<open>for status in x\<close>: a list gives its elements, a string its characters, a dict its
  keys; nothing else is iterable.
\<close>

fun py_iter :: "pyval \<Rightarrow> error + pyval list" where
  "py_iter (PList xs) = Inr xs"
| "py_iter (PStr s) = Inr (map (\<lambda>c. PStr [c]) s)"
| "py_iter (PDict kvs) = Inr (map PStr (remdups (map fst kvs)))"
| "py_iter _ = Inl TypeError"

text \<open>\<^verbatim>\<open>x == s\<close> for a string \<open>s\<close>: true for the same string and for nothing else.\<close>

fun py_eq_str :: "pyval \<Rightarrow> string \<Rightarrow> bool" where
  "py_eq_str (PStr t) s = (t = s)"
| "py_eq_str _ s = False"

text \<open>
  A value inside an f-string. A string is inserted as it is; for every other value
  Python calls the builtin \<^verbatim>\<open>str\<close>, which is not part of the script and is the
  parameter \<open>str_of\<close> here.
\<close>

fun py_format :: "(pyval \<Rightarrow> string) \<Rightarrow> pyval \<Rightarrow> string" where
  "py_format str_of (PStr s) = s"
| "py_format str_of v = str_of v"

definition quote :: string where
  "quote = [CHR 0x27]"

section \<open>The script\<close>

text \<open>Lines 15 to 22: the request for the commit's combined status.\<close>

definition build_request :: "string \<Rightarrow> string \<Rightarrow> string \<Rightarrow> request" where
  "build_request repo sha token =
     \<lparr>url = ''https://api.github.com/repos/'' @ repo @ ''/commits/'' @ sha @ ''/status'',
      headers = [(''Authorization'', ''Bearer '' @ token),
                 (''Accept'', ''application/vnd.github+json''),
                 (''X-GitHub-Api-Version'', ''2022-11-28'')]\<rparr>"

text \<open>
  Lines 26 to 30: the loop over the statuses. \<open>found_state\<close> starts as \<^verbatim>\<open>None\<close> and
  the loop stops at the first status whose context is the required one.
\<close>

fun main_scan :: "string \<Rightarrow> pyval list \<Rightarrow> error + pyval" where
  "main_scan required [] = Inr PNone"
| "main_scan required (status # rest) =
     (case py_get status ''context'' PNone of
        Inl e \<Rightarrow> Inl e
      | Inr c \<Rightarrow>
          if py_eq_str c required then py_get status ''state'' PNone
          else main_scan required rest)"

text \<open>Lines 32 to 43: the line printed and the value returned.\<close>

definition main_report :: "(pyval \<Rightarrow> string) \<Rightarrow> string \<Rightarrow> pyval \<Rightarrow> proc \<Rightarrow> int \<times> proc" where
  "main_report str_of required found_state \<sigma> =
     (if py_eq_str found_state ''success'' then
        (0, print_stdout (required @ '' is success'') \<sigma>)
      else if found_state = PNone then
        (1, print_stderr (''Missing required local status: '' @ required) \<sigma>)
      else
        (1, print_stderr (''Local status '' @ required @ '' is '' @ quote
               @ py_format str_of found_state @ quote @ '', expected '' @ quote
               @ ''success'' @ quote) \<sigma>))"

text \<open>Lines 26 to 43: everything the script does with the decoded payload.\<close>

definition main_check ::
  "(pyval \<Rightarrow> string) \<Rightarrow> string \<Rightarrow> pyval \<Rightarrow> proc \<Rightarrow> (error + int) \<times> proc" where
  "main_check str_of required payload \<sigma> =
     (case py_get payload ''statuses'' (PList []) of
        Inl e \<Rightarrow> (Inl e, \<sigma>)
      | Inr statuses \<Rightarrow>
          (case py_iter statuses of
             Inl e \<Rightarrow> (Inl e, \<sigma>)
           | Inr xs \<Rightarrow>
               (case main_scan required xs of
                  Inl e \<Rightarrow> (Inl e, \<sigma>)
                | Inr found_state \<Rightarrow>
                    (case main_report str_of required found_state \<sigma> of
                       (code, \<sigma>') \<Rightarrow> (Inr code, \<sigma>')))))"

text \<open>
  The whole of \<^verbatim>\<open>main\<close>. \<open>urlopen_json\<close> is the outside world: lines 23 and 24, the
  answer to a request, decoded, or the exception raised on the way. The result is
  \<open>Inr\<close> of the value \<^verbatim>\<open>main\<close> returns, which \<^verbatim>\<open>SystemExit\<close> makes the exit code, or
  \<open>Inl\<close> of the exception that ends the process.
\<close>

definition main ::
  "(pyval \<Rightarrow> string) \<Rightarrow> (string \<rightharpoonup> string) \<Rightarrow> (request \<Rightarrow> error + pyval)
     \<Rightarrow> (error + int) \<times> proc" where
  "main str_of environ urlopen_json =
     (case environ_get environ ''REPO'' of
        Inl e \<Rightarrow> (Inl e, proc0)
      | Inr repo \<Rightarrow>
     (case environ_get environ ''PR_HEAD_SHA'' of
        Inl e \<Rightarrow> (Inl e, proc0)
      | Inr sha \<Rightarrow>
     (case environ_get environ ''GH_TOKEN'' of
        Inl e \<Rightarrow> (Inl e, proc0)
      | Inr token \<Rightarrow>
     (case environ_get environ ''REQUIRED_CONTEXT'' of
        Inl e \<Rightarrow> (Inl e, proc0)
      | Inr required \<Rightarrow>
          (let req = build_request repo sha token;
               \<sigma> = proc0\<lparr>requests := [req]\<rparr>
           in case urlopen_json req of
                Inl e \<Rightarrow> (Inl e, \<sigma>)
              | Inr payload \<Rightarrow> main_check str_of required payload \<sigma>)))))"

section \<open>The vocabulary of the specification\<close>

text \<open>
  The specification speaks of a response object with a \<^verbatim>\<open>statuses\<close> array of entries,
  each an object with a \<^verbatim>\<open>context\<close> and a \<^verbatim>\<open>state\<close>. \<open>field k e\<close> is the member \<open>k\<close>
  of the object \<open>e\<close>, if \<open>e\<close> is an object and has one.
\<close>

fun is_dict :: "pyval \<Rightarrow> bool" where
  "is_dict (PDict kvs) = True"
| "is_dict _ = False"

fun field :: "string \<Rightarrow> pyval \<Rightarrow> pyval option" where
  "field k (PDict kvs) = map_of kvs k"
| "field k _ = None"

text \<open>The entries of a payload: the elements of its \<^verbatim>\<open>statuses\<close> array.\<close>

definition entries :: "pyval \<Rightarrow> pyval list" where
  "entries p = (case field ''statuses'' p of Some (PList es) \<Rightarrow> es | _ \<Rightarrow> [])"

text \<open>
  The shape of a response body (sections 3 and 6 of the specification): an object whose
  \<^verbatim>\<open>statuses\<close> member, when there is one, is an array of objects. Nothing is asked of the
  members of an entry: \<^verbatim>\<open>context\<close> and \<^verbatim>\<open>state\<close> may be absent or hold any value.
\<close>

definition wf_payload :: "pyval \<Rightarrow> bool" where
  "wf_payload p =
     (is_dict p \<and>
      (case field ''statuses'' p of
         None \<Rightarrow> True
       | Some (PList es) \<Rightarrow> list_all is_dict es
       | Some _ \<Rightarrow> False))"

text \<open>The earliest entry of the payload whose context is the required one.\<close>

definition first_match :: "string \<Rightarrow> pyval \<Rightarrow> pyval option" where
  "first_match required p =
     find (\<lambda>e. field ''context'' e = Some (PStr required)) (entries p)"

text \<open>Letter case and white space of ASCII strings.\<close>

definition lower_char :: "char \<Rightarrow> char" where
  "lower_char c =
     (case map_of (zip ''ABCDEFGHIJKLMNOPQRSTUVWXYZ'' ''abcdefghijklmnopqrstuvwxyz'') c of
        None \<Rightarrow> c
      | Some d \<Rightarrow> d)"

definition is_space :: "char \<Rightarrow> bool" where
  "is_space c = (c \<in> set [CHR '' '', CHR 0x09, CHR 0x0A, CHR 0x0B, CHR 0x0C, CHR 0x0D])"

definition differs_only_in_case :: "string \<Rightarrow> string \<Rightarrow> bool" where
  "differs_only_in_case a b = (a \<noteq> b \<and> map lower_char a = map lower_char b)"

definition differs_only_in_case_or_space :: "string \<Rightarrow> string \<Rightarrow> bool" where
  "differs_only_in_case_or_space a b =
     (a \<noteq> b \<and>
      map lower_char (filter (\<lambda>c. \<not> is_space c) a)
        = map lower_char (filter (\<lambda>c. \<not> is_space c) b))"

text \<open>The two lines the script can print on standard error.\<close>

definition missing_line :: "string \<Rightarrow> string" where
  "missing_line required = ''Missing required local status: '' @ required"

definition state_line :: "string \<Rightarrow> string \<Rightarrow> string" where
  "state_line required shown =
     ''Local status '' @ required @ '' is '' @ quote @ shown @ quote
       @ '', expected '' @ quote @ ''success'' @ quote"

text \<open>
  Lines on a stream. \<^verbatim>\<open>print\<close> writes its text and then one newline character, so a
  call writes one line more than the text has newline characters. \<open>shown_state\<close> is the
  state of the earliest entry with the required context as an f-string shows it, empty
  when there is no such entry or its state is \<^verbatim>\<open>None\<close>.
\<close>

definition newlines :: "string \<Rightarrow> nat" where
  "newlines t = length (filter (\<lambda>c. c = CHR 0x0A) t)"

definition written_lines :: "string list \<Rightarrow> nat" where
  "written_lines prints = sum_list (map (\<lambda>t. Suc (newlines t)) prints)"

definition shown_state :: "(pyval \<Rightarrow> string) \<Rightarrow> string \<Rightarrow> pyval \<Rightarrow> string" where
  "shown_state str_of required p =
     (case first_match required p of
        None \<Rightarrow> []
      | Some e \<Rightarrow>
          (case field ''state'' e of
             None \<Rightarrow> []
           | Some v \<Rightarrow> if v = PNone then [] else py_format str_of v))"

section \<open>Example inputs\<close>

text \<open>
  The payload of section 8 of the specification, and payloads with the same context twice.
\<close>

definition entry :: "string \<Rightarrow> string \<Rightarrow> pyval" where
  "entry c s = PDict [(''context'', PStr c), (''state'', PStr s)]"

definition payload_of :: "pyval list \<Rightarrow> pyval" where
  "payload_of es = PDict [(''statuses'', PList es)]"

definition spec_payload :: pyval where
  "spec_payload = payload_of [entry ''ci/build'' ''success'', entry ''ci/lint'' ''pending'']"

definition pending_then_success :: pyval where
  "pending_then_success =
     payload_of [entry ''ci/build'' ''pending'', entry ''ci/build'' ''success'']"

definition success_then_pending :: pyval where
  "success_then_pending =
     payload_of [entry ''ci/build'' ''success'', entry ''ci/build'' ''pending'']"

text \<open>
  In the examples every state is a string, so \<^verbatim>\<open>str\<close> is never called; this rendering
  fills the parameter there.
\<close>

definition str_example :: "pyval \<Rightarrow> string" where
  "str_example v = ''<value>''"

definition env_example :: "string \<rightharpoonup> string" where
  "env_example =
     map_of [(''REPO'', ''bjoernh/moltis''), (''PR_HEAD_SHA'', ''0a1b2c3''),
             (''GH_TOKEN'', ''token-one''), (''REQUIRED_CONTEXT'', ''ci/build'')]"

definition example_server :: "request \<Rightarrow> error + pyval" where
  "example_server req = Inr spec_payload"

definition env_other :: "string \<rightharpoonup> string" where
  "env_other =
     map_of [(''REPO'', ''someone/else''), (''PR_HEAD_SHA'', ''fedcba9''),
             (''GH_TOKEN'', ''token-two''), (''REQUIRED_CONTEXT'', ''ci/build'')]"

definition other_payload :: pyval where
  "other_payload =
     PDict [(''state'', PStr ''pending''),
            (''statuses'', PList [entry ''ci/build'' ''success'', entry ''ci/lint'' ''pending'']),
            (''sha'', PStr ''fedcba9'')]"

definition other_server :: "request \<Rightarrow> error + pyval" where
  "other_server req = Inr other_payload"

text \<open>A state with a newline character in it.\<close>

definition newline_state_payload :: pyval where
  "newline_state_payload = payload_of [entry ''ci/build'' (''suc'' @ [CHR 0x0A] @ ''cess'')]"

section \<open>How the loop runs\<close>

lemma py_get_field:
  "is_dict e \<Longrightarrow> py_get e k d = Inr (case field k e of None \<Rightarrow> d | Some v \<Rightarrow> v)"
  by (cases e) simp_all

lemma field_is_dict: "field k e = Some v \<Longrightarrow> is_dict e"
  by (cases e) simp_all

lemma py_eq_str_iff: "py_eq_str c r \<longleftrightarrow> c = PStr r"
  by (cases c) auto

lemma context_test:
  "py_eq_str (case field ''context'' e of None \<Rightarrow> PNone | Some v \<Rightarrow> v) r
     \<longleftrightarrow> field ''context'' e = Some (PStr r)"
  by (auto simp: py_eq_str_iff split: option.splits)

lemma main_scan_step:
  "is_dict e \<Longrightarrow>
   main_scan r (e # rest) =
     (if field ''context'' e = Some (PStr r)
      then Inr (case field ''state'' e of None \<Rightarrow> PNone | Some v \<Rightarrow> v)
      else main_scan r rest)"
  by (simp add: py_get_field context_test)

lemma main_scan_skip:
  "list_all is_dict pre \<Longrightarrow>
   \<forall>x\<in>set pre. field ''context'' x \<noteq> Some (PStr r) \<Longrightarrow>
   main_scan r (pre @ rest) = main_scan r rest"
proof (induction pre)
  case Nil
  show ?case by simp
next
  case (Cons x pre)
  from Cons.prems have "is_dict x" and "field ''context'' x \<noteq> Some (PStr r)"
    by simp_all
  then have "main_scan r ((x # pre) @ rest) = main_scan r (pre @ rest)"
    by (simp add: main_scan_step del: main_scan.simps)
  with Cons show ?case by simp
qed

lemma main_scan_first:
  assumes "list_all is_dict pre"
    and "\<forall>x\<in>set pre. field ''context'' x \<noteq> Some (PStr r)"
    and "field ''context'' e = Some (PStr r)"
  shows "main_scan r (pre @ e # post)
           = Inr (case field ''state'' e of None \<Rightarrow> PNone | Some v \<Rightarrow> v)"
proof -
  have "is_dict e" using assms(3) by (rule field_is_dict)
  then have "main_scan r (e # post)
               = Inr (case field ''state'' e of None \<Rightarrow> PNone | Some v \<Rightarrow> v)"
    using assms(3) by (simp add: main_scan_step del: main_scan.simps)
  with main_scan_skip [OF assms(1,2)] show ?thesis by simp
qed

lemma main_scan_no_match:
  assumes "list_all is_dict es"
    and "\<forall>x\<in>set es. field ''context'' x \<noteq> Some (PStr r)"
  shows "main_scan r es = Inr PNone"
  using main_scan_skip [OF assms, of "[]"] by simp

lemma main_check_dict:
  "field ''statuses'' p = Some (PList es) \<Longrightarrow>
   main_check str_of r p \<sigma> =
     (case main_scan r es of
        Inl e \<Rightarrow> (Inl e, \<sigma>)
      | Inr found_state \<Rightarrow>
          (case main_report str_of r found_state \<sigma> of (code, \<sigma>') \<Rightarrow> (Inr code, \<sigma>')))"
  by (cases p) (simp_all add: main_check_def)

lemma main_check_absent:
  "is_dict p \<Longrightarrow> field ''statuses'' p = None \<Longrightarrow>
   main_check str_of r p \<sigma> = (Inr 1, print_stderr (missing_line r) \<sigma>)"
  by (cases p) (simp_all add: main_check_def main_report_def missing_line_def)

lemma main_check_wf:
  assumes "wf_payload p"
  shows "main_check str_of r p \<sigma> =
     (case main_scan r (entries p) of
        Inl e \<Rightarrow> (Inl e, \<sigma>)
      | Inr found_state \<Rightarrow>
          (case main_report str_of r found_state \<sigma> of (code, \<sigma>') \<Rightarrow> (Inr code, \<sigma>')))"
proof (cases "field ''statuses'' p")
  case None
  with assms have "main_check str_of r p \<sigma> = (Inr 1, print_stderr (missing_line r) \<sigma>)"
    by (simp add: wf_payload_def main_check_absent)
  moreover from None have "entries p = []" by (simp add: entries_def)
  ultimately show ?thesis by (simp add: main_report_def missing_line_def)
next
  case (Some v)
  with assms obtain es where v: "v = PList es"
    by (cases v) (simp_all add: wf_payload_def)
  with Some have "entries p = es" by (simp add: entries_def)
  with Some v show ?thesis by (simp add: main_check_dict)
qed

lemma wf_entries: "wf_payload p \<Longrightarrow> list_all is_dict (entries p)"
  by (auto simp: wf_payload_def entries_def split: option.splits pyval.splits)

lemma first_match_split:
  assumes "first_match r p = Some e"
  obtains pre post where "entries p = pre @ e # post"
    and "\<forall>x\<in>set pre. field ''context'' x \<noteq> Some (PStr r)"
    and "field ''context'' e = Some (PStr r)"
proof -
  from assms obtain i where i: "i < length (entries p)"
      "field ''context'' (entries p ! i) = Some (PStr r)" "e = entries p ! i"
      "\<forall>j<i. field ''context'' (entries p ! j) \<noteq> Some (PStr r)"
    unfolding first_match_def find_Some_iff by blast
  let ?pre = "take i (entries p)" and ?post = "drop (Suc i) (entries p)"
  have "entries p = ?pre @ e # ?post"
    using i(1,3) by (simp add: id_take_nth_drop)
  moreover have "\<forall>x\<in>set ?pre. field ''context'' x \<noteq> Some (PStr r)"
    using i(1,4) by (auto simp: in_set_conv_nth)
  ultimately show thesis using i(2,3) that by blast
qed

lemma found_state_of_first_match:
  assumes "wf_payload p" and "first_match r p = Some e"
  shows "main_scan r (entries p)
           = Inr (case field ''state'' e of None \<Rightarrow> PNone | Some v \<Rightarrow> v)"
proof -
  from assms(2) obtain pre post where sp: "entries p = pre @ e # post"
      "\<forall>x\<in>set pre. field ''context'' x \<noteq> Some (PStr r)"
      "field ''context'' e = Some (PStr r)"
    by (rule first_match_split)
  from wf_entries [OF assms(1)] sp(1) have "list_all is_dict pre" by simp
  then show ?thesis using sp by (simp add: main_scan_first del: main_scan.simps)
qed

lemma found_state_no_match:
  assumes "wf_payload p" and "first_match r p = None"
  shows "main_scan r (entries p) = Inr PNone"
proof -
  from assms(2) have "\<forall>x\<in>set (entries p). field ''context'' x \<noteq> Some (PStr r)"
    by (simp add: first_match_def find_None_iff)
  with wf_entries [OF assms(1)] show ?thesis by (rule main_scan_no_match)
qed

lemma found_state_wf:
  assumes "wf_payload p"
  shows "main_scan r (entries p) =
     Inr (case first_match r p of
            None \<Rightarrow> PNone
          | Some e \<Rightarrow> (case field ''state'' e of None \<Rightarrow> PNone | Some v \<Rightarrow> v))"
proof (cases "first_match r p")
  case None
  with assms show ?thesis by (simp add: found_state_no_match del: main_scan.simps)
next
  case (Some e)
  with assms show ?thesis by (simp add: found_state_of_first_match del: main_scan.simps)
qed

lemma main_scan_drop:
  assumes "is_dict e" and "field ''context'' e \<noteq> Some (PStr r)"
  shows "main_scan r (pre @ e # post) = main_scan r (pre @ post)"
proof (induction pre)
  case Nil
  from assms show ?case by (simp add: main_scan_step del: main_scan.simps)
next
  case (Cons x pre)
  then show ?case by (simp split: sum.splits)
qed

section \<open>What is printed and returned\<close>

lemma report_success:
  "main_report s r (PStr ''success'') \<sigma> = (0, \<sigma>\<lparr>stdout := stdout \<sigma> @ [r @ '' is success'']\<rparr>)"
  by (simp add: main_report_def print_stdout_def)

lemma report_missing:
  "main_report s r PNone \<sigma>
     = (1, \<sigma>\<lparr>stderr := stderr \<sigma> @ [''Missing required local status: '' @ r]\<rparr>)"
  by (simp add: main_report_def print_stderr_def)

lemma report_other:
  "v \<noteq> PStr ''success'' \<Longrightarrow> v \<noteq> PNone \<Longrightarrow>
   main_report s r v \<sigma> = (1, \<sigma>\<lparr>stderr := stderr \<sigma> @ [state_line r (py_format s v)]\<rparr>)"
  by (simp add: main_report_def print_stderr_def state_line_def py_eq_str_iff)

lemma main_check_statuses_only:
  "map_of kvs1 ''statuses'' = map_of kvs2 ''statuses'' \<Longrightarrow>
   main_check s r (PDict kvs1) \<sigma> = main_check s r (PDict kvs2) \<sigma>"
  by (simp add: main_check_def)

lemma main_report_frame:
  "fst (main_report s r v \<sigma>) = fst (main_report s r v \<tau>)
   \<and> stdout (snd (main_report s r v \<sigma>)) = stdout \<sigma> @ stdout (snd (main_report s r v proc0))
   \<and> stderr (snd (main_report s r v \<sigma>)) = stderr \<sigma> @ stderr (snd (main_report s r v proc0))
   \<and> requests (snd (main_report s r v \<sigma>)) = requests \<sigma>"
  by (simp add: main_report_def print_stdout_def print_stderr_def proc0_def)

lemma main_check_frame:
  "fst (main_check s r p \<sigma>) = fst (main_check s r p proc0)
   \<and> stdout (snd (main_check s r p \<sigma>)) = stdout \<sigma> @ stdout (snd (main_check s r p proc0))
   \<and> stderr (snd (main_check s r p \<sigma>)) = stderr \<sigma> @ stderr (snd (main_check s r p proc0))
   \<and> requests (snd (main_check s r p \<sigma>)) = requests \<sigma>"
proof -
  have *: "fst (case main_report s r v \<sigma> of (code, \<sigma>') \<Rightarrow> (Inr code :: error + int, \<sigma>'))
             = Inr (fst (main_report s r v \<sigma>))"
    "snd (case main_report s r v \<sigma> of (code, \<sigma>') \<Rightarrow> (Inr code :: error + int, \<sigma>'))
             = snd (main_report s r v \<sigma>)" for v \<sigma>
    by (simp_all add: case_prod_beta)
  show ?thesis
    unfolding main_check_def
    by (simp add: * proc0_def main_report_frame [of s r _ \<sigma> proc0, THEN conjunct1]
          main_report_frame [of s r _ \<sigma> proc0, THEN conjunct2]
          split: sum.splits)
qed

lemma main_run:
  assumes "environ ''REPO'' = Some repo" and "environ ''PR_HEAD_SHA'' = Some sha"
    and "environ ''GH_TOKEN'' = Some token" and "environ ''REQUIRED_CONTEXT'' = Some r"
  shows "main s environ urlopen_json =
     (case urlopen_json (build_request repo sha token) of
        Inl e \<Rightarrow> (Inl e, proc0\<lparr>requests := [build_request repo sha token]\<rparr>)
      | Inr payload \<Rightarrow>
          main_check s r payload (proc0\<lparr>requests := [build_request repo sha token]\<rparr>))"
  using assms by (simp add: main_def environ_get_def Let_def)

section \<open>Payloads of another shape\<close>

text \<open>
  The script does not check the shape of what it decoded. A payload that is not an
  object, a \<^verbatim>\<open>statuses\<close> member that cannot be iterated and an element that is not an
  object each end \<^verbatim>\<open>main\<close> with an exception before anything is printed.
\<close>

lemma payload_not_object_raises:
  "main_check s r (PList xs) \<sigma> = (Inl AttributeError, \<sigma>)"
  by (simp add: main_check_def)

lemma statuses_null_raises:
  "main_check s r (PDict [(''statuses'', PNone)]) \<sigma> = (Inl TypeError, \<sigma>)"
  by (simp add: main_check_def)

lemma element_not_object_raises:
  "main_check s r (PDict [(''statuses'', PList [PInt 5])]) \<sigma> = (Inl AttributeError, \<sigma>)"
  by (simp add: main_check_def)

text \<open>A state that is \<^verbatim>\<open>null\<close> is the same \<^verbatim>\<open>None\<close> as no state.\<close>

lemma null_state_reported_missing:
  assumes "wf_payload p" and "first_match r p = Some e" and "field ''state'' e = Some PNone"
  shows "main_check s r p \<sigma>
           = (Inr 1, \<sigma>\<lparr>stderr := stderr \<sigma> @ [''Missing required local status: '' @ r]\<rparr>)"
proof -
  from assms have "main_scan r (entries p) = Inr PNone"
    by (simp add: found_state_of_first_match del: main_scan.simps)
  with assms(1) show ?thesis
    by (simp add: main_check_wf report_missing)
qed

section \<open>The claims\<close>

lemmas example_defs =
  wf_payload_def entries_def first_match_def entry_def payload_of_def spec_payload_def
  pending_then_success_def success_then_pending_def proc0_def state_line_def quote_def
  main_check_def main_report_def print_stdout_def print_stderr_def

subsection \<open>C1\<close>

text \<open>
  Claim C1, as the script has it. When the earliest entry whose context is the required
  one has the state \<^verbatim>\<open>"success"\<close>, the script returns 0 and prints the one line
  \<^verbatim>\<open><REQUIRED_CONTEXT> is success\<close> on standard output; standard error is left as it was.
  An entry with that context and state further down the array does not suffice: the loop
  stops at the first entry with the context.
\<close>

theorem first_match_success_exits_0:
  assumes "wf_payload p" and "first_match r p = Some e"
    and "field ''state'' e = Some (PStr ''success'')"
  shows "main_check s r p \<sigma> = (Inr 0, \<sigma>\<lparr>stdout := stdout \<sigma> @ [r @ '' is success'']\<rparr>)"
  using assms
  by (simp add: main_check_wf found_state_of_first_match report_success
        del: main_scan.simps)

theorem first_match_success_exits_0_witness:
  "wf_payload spec_payload
   \<and> first_match ''ci/build'' spec_payload = Some (entry ''ci/build'' ''success'')
   \<and> field ''state'' (entry ''ci/build'' ''success'') = Some (PStr ''success'')
   \<and> main_check str_example ''ci/build'' spec_payload proc0
       = (Inr 0, \<lparr>requests = [], stdout = [''ci/build is success''], stderr = []\<rparr>)"
  using first_match_success_exits_0 [of spec_payload "''ci/build''" "entry ''ci/build'' ''success''" str_example proc0]
  by (simp add: example_defs)

text \<open>
  The claim as written asks only for some entry with the context and the state
  \<^verbatim>\<open>"success"\<close>. Here such an entry comes second, after a pending one with the same
  context, and the script returns 1 with a line on standard error.
\<close>

theorem later_success_entry_counterexample:
  "wf_payload pending_then_success
   \<and> entry ''ci/build'' ''success'' \<in> set (entries pending_then_success)
   \<and> field ''context'' (entry ''ci/build'' ''success'') = Some (PStr ''ci/build'')
   \<and> field ''state'' (entry ''ci/build'' ''success'') = Some (PStr ''success'')
   \<and> main_check str_example ''ci/build'' pending_then_success proc0
       = (Inr 1, \<lparr>requests = [], stdout = [],
                  stderr = [state_line ''ci/build'' ''pending'']\<rparr>)"
  by (simp add: example_defs)

subsection \<open>C2\<close>

text \<open>
  Claim C2. When no entry of the payload has the required context, the script returns 1
  and prints exactly \<^verbatim>\<open>Missing required local status: <REQUIRED_CONTEXT>\<close> on standard
  error, nothing on standard output. A payload without the \<^verbatim>\<open>statuses\<close> key and one with
  an empty \<^verbatim>\<open>statuses\<close> list are such payloads: both have no entries and neither raises.
\<close>

theorem no_match_exits_1_missing:
  assumes "wf_payload p"
    and "\<forall>e\<in>set (entries p). field ''context'' e \<noteq> Some (PStr r)"
  shows "main_check s r p \<sigma>
           = (Inr 1, \<sigma>\<lparr>stderr := stderr \<sigma> @ [''Missing required local status: '' @ r]\<rparr>)"
proof -
  from assms(2) have "first_match r p = None"
    by (simp add: first_match_def find_None_iff)
  with assms(1) have "main_scan r (entries p) = Inr PNone"
    by (rule found_state_no_match)
  with assms(1) show ?thesis
    by (simp add: main_check_wf report_missing)
qed

theorem no_match_exits_1_missing_witness:
  "(wf_payload (PDict [])
    \<and> entries (PDict []) = []
    \<and> main_check str_example ''ci/deploy'' (PDict []) proc0
        = (Inr 1, \<lparr>requests = [], stdout = [],
                   stderr = [''Missing required local status: ci/deploy'']\<rparr>))
   \<and> (wf_payload (payload_of [])
    \<and> entries (payload_of []) = []
    \<and> main_check str_example ''ci/deploy'' (payload_of []) proc0
        = (Inr 1, \<lparr>requests = [], stdout = [],
                   stderr = [''Missing required local status: ci/deploy'']\<rparr>))
   \<and> (wf_payload spec_payload
    \<and> entries spec_payload = [entry ''ci/build'' ''success'', entry ''ci/lint'' ''pending'']
    \<and> field ''context'' (entry ''ci/build'' ''success'') \<noteq> Some (PStr ''ci/deploy'')
    \<and> field ''context'' (entry ''ci/lint'' ''pending'') \<noteq> Some (PStr ''ci/deploy'')
    \<and> main_check str_example ''ci/deploy'' spec_payload proc0
        = (Inr 1, \<lparr>requests = [], stdout = [],
                   stderr = [''Missing required local status: ci/deploy'']\<rparr>))"
  using no_match_exits_1_missing [of "PDict []" "''ci/deploy''" str_example proc0]
    no_match_exits_1_missing [of "payload_of []" "''ci/deploy''" str_example proc0]
    no_match_exits_1_missing [of spec_payload "''ci/deploy''" str_example proc0]
  by (simp add: example_defs)

subsection \<open>C3\<close>

text \<open>
  Claim C3, as the script has it. When the earliest entry whose context is the required
  one has a state that is present, is not \<^verbatim>\<open>null\<close> and is not \<^verbatim>\<open>"success"\<close>, the script
  returns 1 and prints \<^verbatim>\<open>Local status <REQUIRED_CONTEXT> is '<state>', expected 'success'\<close>
  on standard error, where a state that is a string stands in the line as it is.
\<close>

theorem first_match_other_state_exits_1:
  assumes "wf_payload p" and "first_match r p = Some e"
    and "field ''state'' e = Some v" and "v \<noteq> PNone" and "v \<noteq> PStr ''success''"
  shows "main_check s r p \<sigma>
           = (Inr 1, \<sigma>\<lparr>stderr := stderr \<sigma> @
                [''Local status '' @ r @ '' is '' @ quote @ py_format s v @ quote
                   @ '', expected '' @ quote @ ''success'' @ quote]\<rparr>)
         \<and> (\<forall>t. v = PStr t \<longrightarrow> py_format s v = t)"
proof -
  from assms(1-3) have "main_scan r (entries p) = Inr v"
    by (simp add: found_state_of_first_match del: main_scan.simps)
  with assms show ?thesis
    by (auto simp: main_check_wf report_other state_line_def)
qed

theorem first_match_other_state_exits_1_witness:
  "wf_payload spec_payload
   \<and> first_match ''ci/lint'' spec_payload = Some (entry ''ci/lint'' ''pending'')
   \<and> field ''state'' (entry ''ci/lint'' ''pending'') = Some (PStr ''pending'')
   \<and> PStr ''pending'' \<noteq> PNone \<and> PStr ''pending'' \<noteq> PStr ''success''
   \<and> main_check str_example ''ci/lint'' spec_payload proc0
       = (Inr 1, \<lparr>requests = [], stdout = [],
                  stderr = [''Local status ci/lint is '' @ quote @ ''pending'' @ quote
                              @ '', expected '' @ quote @ ''success'' @ quote]\<rparr>)
   \<and> py_format str_example (PStr ''pending'') = ''pending''"
  using first_match_other_state_exits_1 [of spec_payload "''ci/lint''" "entry ''ci/lint'' ''pending''"
      "PStr ''pending''" str_example proc0]
  by (simp add: example_defs)

text \<open>
  The claim as written asks only for some entry with the context and another state. Here
  a pending entry comes second, after a successful one with the same context, and the
  script returns 0.
\<close>

theorem later_pending_entry_counterexample:
  "wf_payload success_then_pending
   \<and> entry ''ci/build'' ''pending'' \<in> set (entries success_then_pending)
   \<and> field ''context'' (entry ''ci/build'' ''pending'') = Some (PStr ''ci/build'')
   \<and> field ''state'' (entry ''ci/build'' ''pending'') = Some (PStr ''pending'')
   \<and> PStr ''pending'' \<noteq> PStr ''success''
   \<and> main_check str_example ''ci/build'' success_then_pending proc0
       = (Inr 0, \<lparr>requests = [], stdout = [''ci/build is success''], stderr = []\<rparr>)"
  by (simp add: example_defs)

subsection \<open>C4\<close>

text \<open>
  Claim C4: first match wins. When the \<^verbatim>\<open>statuses\<close> array is \<open>pre @ e # post\<close>, where \<open>e\<close>
  is the earliest entry with the required context, the script returns and prints what it
  would for the array \<open>[e]\<close> alone. Whatever follows \<open>e\<close>, further entries with the same
  context included, has no effect.
\<close>

theorem earliest_match_decides:
  assumes "field ''statuses'' p = Some (PList (pre @ e # post))"
    and "list_all is_dict pre"
    and "\<forall>x\<in>set pre. field ''context'' x \<noteq> Some (PStr r)"
    and "field ''context'' e = Some (PStr r)"
  shows "main_check s r p \<sigma> = main_check s r (PDict [(''statuses'', PList [e])]) \<sigma>"
proof -
  have "main_scan r (pre @ e # post) = main_scan r (e # post)"
    using assms(2,3) by (rule main_scan_skip)
  also have "\<dots> = main_scan r [e]"
    using assms(4) field_is_dict [OF assms(4)]
    by (simp add: main_scan_step del: main_scan.simps)
  finally show ?thesis
    using assms(1) by (simp add: main_check_dict del: main_scan.simps)
qed

theorem earliest_match_decides_witness:
  "field ''statuses'' pending_then_success
     = Some (PList ([] @ entry ''ci/build'' ''pending'' # [entry ''ci/build'' ''success'']))
   \<and> field ''context'' (entry ''ci/build'' ''pending'') = Some (PStr ''ci/build'')
   \<and> main_check str_example ''ci/build'' pending_then_success proc0
       = main_check str_example ''ci/build''
           (PDict [(''statuses'', PList [entry ''ci/build'' ''pending''])]) proc0
   \<and> main_check str_example ''ci/build'' pending_then_success proc0
       = (Inr 1, \<lparr>requests = [], stdout = [],
                  stderr = [state_line ''ci/build'' ''pending'']\<rparr>)"
  using earliest_match_decides [of pending_then_success "[]" "entry ''ci/build'' ''pending''"
      "[entry ''ci/build'' ''success'']" "''ci/build''" str_example proc0]
  by (simp add: example_defs)

subsection \<open>C5\<close>

text \<open>
  Claim C5. A context that differs from the required one only in letter case fails the
  comparison of line 28, and the script returns and prints the same with the entry as
  without it.
\<close>

theorem case_variant_context_no_match:
  assumes "differs_only_in_case c r"
    and "field ''context'' e = Some (PStr c)"
    and "field ''statuses'' p = Some (PList (pre @ e # post))"
  shows "\<not> py_eq_str (PStr c) r
         \<and> main_check s r p \<sigma>
             = main_check s r (PDict [(''statuses'', PList (pre @ post))]) \<sigma>"
proof -
  from assms(1) have ne: "c \<noteq> r" by (simp add: differs_only_in_case_def)
  from assms(2) have "is_dict e" by (rule field_is_dict)
  moreover from ne assms(2) have "field ''context'' e \<noteq> Some (PStr r)" by simp
  ultimately have "main_scan r (pre @ e # post) = main_scan r (pre @ post)"
    by (rule main_scan_drop)
  with ne assms(3) show ?thesis
    by (simp add: main_check_dict del: main_scan.simps)
qed

theorem case_variant_context_no_match_witness:
  "differs_only_in_case ''CI/Build'' ''ci/build''
   \<and> field ''context'' (entry ''CI/Build'' ''success'') = Some (PStr ''CI/Build'')
   \<and> field ''statuses'' (payload_of [entry ''CI/Build'' ''success''])
       = Some (PList ([] @ entry ''CI/Build'' ''success'' # []))
   \<and> \<not> py_eq_str (PStr ''CI/Build'') ''ci/build''
   \<and> main_check str_example ''ci/build'' (payload_of [entry ''CI/Build'' ''success'']) proc0
       = main_check str_example ''ci/build'' (PDict [(''statuses'', PList ([] @ []))]) proc0
   \<and> main_check str_example ''ci/build'' (payload_of [entry ''CI/Build'' ''success'']) proc0
       = (Inr 1, \<lparr>requests = [], stdout = [],
                  stderr = [''Missing required local status: ci/build'']\<rparr>)"
  using case_variant_context_no_match [of "''CI/Build''" "''ci/build''" "entry ''CI/Build'' ''success''"
      "payload_of [entry ''CI/Build'' ''success'']" "[]" "[]" str_example proc0]
  by (simp add: example_defs differs_only_in_case_def lower_char_def)

subsection \<open>C6\<close>

text \<open>
  Claim C6. When one of \<^verbatim>\<open>REPO\<close>, \<^verbatim>\<open>PR_HEAD_SHA\<close>, \<^verbatim>\<open>GH_TOKEN\<close> and
  \<^verbatim>\<open>REQUIRED_CONTEXT\<close> is not in the environment, \<^verbatim>\<open>main\<close> ends with the
  \<^verbatim>\<open>KeyError\<close> of a missing variable, having sent no request and printed nothing.
\<close>

theorem missing_variable_fails_before_request:
  assumes "k \<in> {''REPO'', ''PR_HEAD_SHA'', ''GH_TOKEN'', ''REQUIRED_CONTEXT''}"
    and "environ k = None"
  shows "\<exists>k'. environ k' = None
           \<and> main s environ urlopen_json
               = (Inl (KeyError k'), \<lparr>requests = [], stdout = [], stderr = []\<rparr>)"
proof -
  have "environ ''REPO'' = None \<or> environ ''PR_HEAD_SHA'' = None
        \<or> environ ''GH_TOKEN'' = None \<or> environ ''REQUIRED_CONTEXT'' = None"
    using assms by auto
  then show ?thesis
    by (cases "environ ''REPO''"; cases "environ ''PR_HEAD_SHA''";
        cases "environ ''GH_TOKEN''"; cases "environ ''REQUIRED_CONTEXT''")
       (auto simp: main_def environ_get_def proc0_def)
qed

theorem missing_variable_fails_before_request_witness:
  "''GH_TOKEN'' \<in> {''REPO'', ''PR_HEAD_SHA'', ''GH_TOKEN'', ''REQUIRED_CONTEXT''}
   \<and> (env_example(''GH_TOKEN'' := None)) ''GH_TOKEN'' = None
   \<and> main str_example (env_example(''GH_TOKEN'' := None)) example_server
       = (Inl (KeyError ''GH_TOKEN''), \<lparr>requests = [], stdout = [], stderr = []\<rparr>)"
  using missing_variable_fails_before_request [of "''GH_TOKEN''" "env_example(''GH_TOKEN'' := None)" str_example
      example_server]
  by (simp add: env_example_def main_def environ_get_def proc0_def)

subsection \<open>C7\<close>

text \<open>
  Claim C7, as the script has it. For a decoded payload of the response's shape, the
  script makes exactly one call of \<^verbatim>\<open>print\<close>: either it returns 0 and the text goes to
  standard output, standard error unchanged, or it returns 1 and the text goes to
  standard error, standard output unchanged. The call writes one line and one more for
  every newline character in \<^verbatim>\<open>REQUIRED_CONTEXT\<close> and in the state it shows: exactly one
  line when neither holds a newline character.
\<close>

theorem one_print_one_stream:
  assumes "wf_payload p"
  shows "\<exists>text.
           (main_check s r p \<sigma> = (Inr 0, \<sigma>\<lparr>stdout := stdout \<sigma> @ [text]\<rparr>)
            \<or> main_check s r p \<sigma> = (Inr 1, \<sigma>\<lparr>stderr := stderr \<sigma> @ [text]\<rparr>))
           \<and> written_lines [text] = 1 + newlines r + newlines (shown_state s r p)"
proof -
  define v where "v = (case first_match r p of
            None \<Rightarrow> PNone
          | Some e \<Rightarrow> (case field ''state'' e of None \<Rightarrow> PNone | Some v \<Rightarrow> v))"
  have scan: "main_scan r (entries p) = Inr v"
    unfolding v_def using assms by (rule found_state_wf)
  have shown: "shown_state s r p = (if v = PNone then [] else py_format s v)"
    by (simp add: shown_state_def v_def split: option.splits)
  consider "v = PStr ''success''" | "v = PNone"
    | "v \<noteq> PStr ''success''" "v \<noteq> PNone"
    by blast
  then show ?thesis
  proof cases
    case 1
    with assms scan
    have "main_check s r p \<sigma> = (Inr 0, \<sigma>\<lparr>stdout := stdout \<sigma> @ [r @ '' is success'']\<rparr>)"
      by (simp add: main_check_wf report_success)
    moreover have "written_lines [r @ '' is success'']
                     = 1 + newlines r + newlines (shown_state s r p)"
      using 1 by (simp add: shown written_lines_def newlines_def)
    ultimately show ?thesis by blast
  next
    case 2
    with assms scan
    have "main_check s r p \<sigma>
            = (Inr 1, \<sigma>\<lparr>stderr := stderr \<sigma> @ [''Missing required local status: '' @ r]\<rparr>)"
      by (simp add: main_check_wf report_missing)
    moreover have "written_lines [''Missing required local status: '' @ r]
                     = 1 + newlines r + newlines (shown_state s r p)"
      using 2 by (simp add: shown written_lines_def newlines_def)
    ultimately show ?thesis by blast
  next
    case 3
    with assms scan
    have "main_check s r p \<sigma>
            = (Inr 1, \<sigma>\<lparr>stderr := stderr \<sigma> @ [state_line r (py_format s v)]\<rparr>)"
      by (simp add: main_check_wf report_other)
    moreover have "written_lines [state_line r (py_format s v)]
                     = 1 + newlines r + newlines (shown_state s r p)"
      using 3 by (simp add: shown written_lines_def newlines_def state_line_def quote_def)
    ultimately show ?thesis by blast
  qed
qed

theorem one_print_one_stream_witness:
  "wf_payload spec_payload
   \<and> main_check str_example ''ci/build'' spec_payload proc0
       = (Inr 0, proc0\<lparr>stdout := stdout proc0 @ [''ci/build is success'']\<rparr>)
   \<and> written_lines [''ci/build is success'']
       = 1 + newlines ''ci/build'' + newlines (shown_state str_example ''ci/build'' spec_payload)
   \<and> written_lines [''ci/build is success''] = 1
   \<and> main_check str_example ''ci/lint'' spec_payload proc0
       = (Inr 1, proc0\<lparr>stderr := stderr proc0 @ [state_line ''ci/lint'' ''pending'']\<rparr>)
   \<and> written_lines [state_line ''ci/lint'' ''pending'']
       = 1 + newlines ''ci/lint'' + newlines (shown_state str_example ''ci/lint'' spec_payload)
   \<and> written_lines [state_line ''ci/lint'' ''pending''] = 1"
  using one_print_one_stream [of spec_payload str_example "''ci/build''" proc0]
    one_print_one_stream [of spec_payload str_example "''ci/lint''" proc0]
  by (simp add: example_defs shown_state_def written_lines_def newlines_def)

text \<open>
  The claim as written promises one line for every payload. Here the state of the
  matching entry holds a newline character, and the one call of \<^verbatim>\<open>print\<close> writes two
  lines on standard error.
\<close>

theorem newline_in_state_counterexample:
  "wf_payload newline_state_payload
   \<and> main_check str_example ''ci/build'' newline_state_payload proc0
       = (Inr 1, \<lparr>requests = [], stdout = [],
                  stderr = [state_line ''ci/build'' (''suc'' @ [CHR 0x0A] @ ''cess'')]\<rparr>)
   \<and> written_lines [state_line ''ci/build'' (''suc'' @ [CHR 0x0A] @ ''cess'')] = 2"
  by (simp add: example_defs newline_state_payload_def written_lines_def newlines_def)

subsection \<open>C8\<close>

text \<open>
  Claim C8. When the earliest entry with the required context has no \<^verbatim>\<open>state\<close> member,
  the script returns 1 and prints the \<^verbatim>\<open>Missing required local status\<close> line, as it
  does for a payload with no entries at all.
\<close>

theorem match_without_state_reported_missing:
  assumes "wf_payload p" and "first_match r p = Some e" and "field ''state'' e = None"
  shows "main_check s r p \<sigma>
           = (Inr 1, \<sigma>\<lparr>stderr := stderr \<sigma> @ [''Missing required local status: '' @ r]\<rparr>)
         \<and> main_check s r p \<sigma> = main_check s r (PDict []) \<sigma>"
proof -
  from assms have "main_scan r (entries p) = Inr PNone"
    by (simp add: found_state_of_first_match del: main_scan.simps)
  with assms(1) show ?thesis
    by (simp add: main_check_wf report_missing main_check_absent missing_line_def
          print_stderr_def)
qed

theorem match_without_state_reported_missing_witness:
  "wf_payload (payload_of [PDict [(''context'', PStr ''ci/build'')], entry ''ci/build'' ''success''])
   \<and> first_match ''ci/build''
        (payload_of [PDict [(''context'', PStr ''ci/build'')], entry ''ci/build'' ''success''])
       = Some (PDict [(''context'', PStr ''ci/build'')])
   \<and> field ''state'' (PDict [(''context'', PStr ''ci/build'')]) = None
   \<and> main_check str_example ''ci/build''
        (payload_of [PDict [(''context'', PStr ''ci/build'')], entry ''ci/build'' ''success''])
        proc0
       = (Inr 1, \<lparr>requests = [], stdout = [],
                  stderr = [''Missing required local status: ci/build'']\<rparr>)"
  using match_without_state_reported_missing [of "payload_of [PDict [(''context'', PStr ''ci/build'')],
      entry ''ci/build'' ''success'']" "''ci/build''" "PDict [(''context'', PStr ''ci/build'')]"
      str_example proc0]
  by (simp add: example_defs)

subsection \<open>C9\<close>

text \<open>
  Claim C9. When the state of the earliest entry with the required context differs from
  \<^verbatim>\<open>success\<close> only in letter case or white space, the script returns 1 and reports the
  state as it found it.
\<close>

theorem state_variant_exits_1:
  assumes "wf_payload p" and "first_match r p = Some e"
    and "field ''state'' e = Some (PStr t)"
    and "differs_only_in_case_or_space t ''success''"
  shows "main_check s r p \<sigma>
           = (Inr 1, \<sigma>\<lparr>stderr := stderr \<sigma> @
                [''Local status '' @ r @ '' is '' @ quote @ t @ quote
                   @ '', expected '' @ quote @ ''success'' @ quote]\<rparr>)"
proof -
  from assms(4) have "PStr t \<noteq> PStr ''success''"
    by (simp add: differs_only_in_case_or_space_def)
  moreover from assms(1-3) have "main_scan r (entries p) = Inr (PStr t)"
    by (simp add: found_state_of_first_match del: main_scan.simps)
  ultimately show ?thesis
    using assms(1) by (simp add: main_check_wf report_other state_line_def)
qed

theorem state_variant_exits_1_witness:
  "(wf_payload (payload_of [entry ''ci/build'' ''Success''])
    \<and> first_match ''ci/build'' (payload_of [entry ''ci/build'' ''Success''])
        = Some (entry ''ci/build'' ''Success'')
    \<and> field ''state'' (entry ''ci/build'' ''Success'') = Some (PStr ''Success'')
    \<and> differs_only_in_case_or_space ''Success'' ''success''
    \<and> main_check str_example ''ci/build'' (payload_of [entry ''ci/build'' ''Success'']) proc0
        = (Inr 1, \<lparr>requests = [], stdout = [],
                   stderr = [state_line ''ci/build'' ''Success'']\<rparr>))
   \<and> (wf_payload (payload_of [entry ''ci/build'' ''success ''])
    \<and> first_match ''ci/build'' (payload_of [entry ''ci/build'' ''success ''])
        = Some (entry ''ci/build'' ''success '')
    \<and> field ''state'' (entry ''ci/build'' ''success '') = Some (PStr ''success '')
    \<and> differs_only_in_case_or_space ''success '' ''success''
    \<and> main_check str_example ''ci/build'' (payload_of [entry ''ci/build'' ''success '']) proc0
        = (Inr 1, \<lparr>requests = [], stdout = [],
                   stderr = [state_line ''ci/build'' ''success '']\<rparr>))"
  using state_variant_exits_1 [of "payload_of [entry ''ci/build'' ''Success'']" "''ci/build''"
      "entry ''ci/build'' ''Success''" "''Success''" str_example proc0]
    state_variant_exits_1 [of "payload_of [entry ''ci/build'' ''success '']" "''ci/build''"
      "entry ''ci/build'' ''success ''" "''success ''" str_example proc0]
  by (simp add: example_defs differs_only_in_case_or_space_def lower_char_def is_space_def)

subsection \<open>C10\<close>

text \<open>
  Claim C10. Two runs with the same \<^verbatim>\<open>REQUIRED_CONTEXT\<close> whose decoded payloads are
  objects with the same \<^verbatim>\<open>statuses\<close> member return the same value and print the same
  lines on both streams, whatever \<^verbatim>\<open>REPO\<close>, \<^verbatim>\<open>PR_HEAD_SHA\<close> and \<^verbatim>\<open>GH_TOKEN\<close> are in
  each run: the credential has no way into the output.
\<close>

theorem outcome_independent_of_credential:
  assumes "environ1 ''REPO'' = Some repo1" and "environ1 ''PR_HEAD_SHA'' = Some sha1"
    and "environ1 ''GH_TOKEN'' = Some token1" and "environ1 ''REQUIRED_CONTEXT'' = Some r"
    and "environ2 ''REPO'' = Some repo2" and "environ2 ''PR_HEAD_SHA'' = Some sha2"
    and "environ2 ''GH_TOKEN'' = Some token2" and "environ2 ''REQUIRED_CONTEXT'' = Some r"
    and "urlopen1 (build_request repo1 sha1 token1) = Inr (PDict kvs1)"
    and "urlopen2 (build_request repo2 sha2 token2) = Inr (PDict kvs2)"
    and "map_of kvs1 ''statuses'' = map_of kvs2 ''statuses''"
  shows "fst (main s environ1 urlopen1) = fst (main s environ2 urlopen2)
         \<and> stdout (snd (main s environ1 urlopen1)) = stdout (snd (main s environ2 urlopen2))
         \<and> stderr (snd (main s environ1 urlopen1)) = stderr (snd (main s environ2 urlopen2))"
proof -
  let ?\<sigma>1 = "proc0\<lparr>requests := [build_request repo1 sha1 token1]\<rparr>"
  let ?\<sigma>2 = "proc0\<lparr>requests := [build_request repo2 sha2 token2]\<rparr>"
  have 1: "main s environ1 urlopen1 = main_check s r (PDict kvs1) ?\<sigma>1"
    using assms(1-4,9) by (simp add: main_run)
  have 2: "main s environ2 urlopen2 = main_check s r (PDict kvs2) ?\<sigma>2"
    using assms(5-8,10) by (simp add: main_run)
  have 3: "main_check s r (PDict kvs1) proc0 = main_check s r (PDict kvs2) proc0"
    using assms(11) by (rule main_check_statuses_only)
  have o: "stdout ?\<sigma>1 = stdout ?\<sigma>2" "stderr ?\<sigma>1 = stderr ?\<sigma>2" by simp_all
  show ?thesis
    unfolding 1 2
    using main_check_frame [of s r "PDict kvs1" ?\<sigma>1]
      main_check_frame [of s r "PDict kvs2" ?\<sigma>2] 3 o
    by simp
qed

theorem outcome_independent_of_credential_witness:
  "env_example ''REPO'' = Some ''bjoernh/moltis''
   \<and> env_example ''PR_HEAD_SHA'' = Some ''0a1b2c3''
   \<and> env_example ''GH_TOKEN'' = Some ''token-one''
   \<and> env_example ''REQUIRED_CONTEXT'' = Some ''ci/build''
   \<and> env_other ''REPO'' = Some ''someone/else''
   \<and> env_other ''PR_HEAD_SHA'' = Some ''fedcba9''
   \<and> env_other ''GH_TOKEN'' = Some ''token-two''
   \<and> env_other ''REQUIRED_CONTEXT'' = Some ''ci/build''
   \<and> example_server (build_request ''bjoernh/moltis'' ''0a1b2c3'' ''token-one'')
       = Inr (PDict [(''statuses'',
            PList [entry ''ci/build'' ''success'', entry ''ci/lint'' ''pending''])])
   \<and> other_server (build_request ''someone/else'' ''fedcba9'' ''token-two'')
       = Inr (PDict [(''state'', PStr ''pending''),
            (''statuses'', PList [entry ''ci/build'' ''success'', entry ''ci/lint'' ''pending'']),
            (''sha'', PStr ''fedcba9'')])
   \<and> map_of [(''statuses'',
            PList [entry ''ci/build'' ''success'', entry ''ci/lint'' ''pending''])] ''statuses''
       = map_of [(''state'', PStr ''pending''),
            (''statuses'', PList [entry ''ci/build'' ''success'', entry ''ci/lint'' ''pending'']),
            (''sha'', PStr ''fedcba9'')] ''statuses''
   \<and> fst (main str_example env_example example_server)
       = fst (main str_example env_other other_server)
   \<and> stdout (snd (main str_example env_example example_server))
       = stdout (snd (main str_example env_other other_server))
   \<and> stderr (snd (main str_example env_example example_server))
       = stderr (snd (main str_example env_other other_server))
   \<and> stdout (snd (main str_example env_example example_server)) = [''ci/build is success'']"
  using outcome_independent_of_credential [of env_example "''bjoernh/moltis''" "''0a1b2c3''" "''token-one''"
      "''ci/build''" env_other "''someone/else''" "''fedcba9''" "''token-two''"
      example_server "[(''statuses'',
            PList [entry ''ci/build'' ''success'', entry ''ci/lint'' ''pending''])]"
      other_server "[(''state'', PStr ''pending''),
            (''statuses'', PList [entry ''ci/build'' ''success'', entry ''ci/lint'' ''pending'']),
            (''sha'', PStr ''fedcba9'')]" str_example]
  by (simp add: example_defs env_example_def env_other_def example_server_def
        other_server_def other_payload_def main_def environ_get_def build_request_def)

end
